theory Spec2Isabelle
  imports Main
begin

section \<open>Python values used by \<open>core/scraper.py\<close>\<close>

text \<open>
  The exceptions that the body of \<open>PinterestScraper.scrape_pinterest\<close> and the
  constructor can raise. Every one of them is a subclass of Python's \<open>Exception\<close>.
\<close>

datatype py_error =
    ValueError
  | ConnectionError
  | Timeout
  | HTTPError
  | JSONDecodeError
  | AttributeError
  | TypeError
  | KeyError

text \<open>
  What \<open>response.json()\<close> returns: \<open>None\<close>, a bool, an integer, a \<open>str\<close>, a
  \<open>list\<close> or a \<open>dict\<close> with string keys. A dict has one value per key, so it is an
  association list that is read at the first entry of a key. Fractional numbers are
  left out: the code only hands a number through or tests it for truth.
\<close>

datatype json =
    JNull
  | JBool bool
  | JInt int
  | JStr string
  | JArr "json list"
  | JObj "(string \<times> json) list"

text \<open>Truth value of a Python object, as \<open>not x\<close> and \<open>x or y\<close> test it.\<close>

fun truthy :: "json \<Rightarrow> bool" where
  "truthy JNull = False"
| "truthy (JBool b) = b"
| "truthy (JInt n) = (n \<noteq> 0)"
| "truthy (JStr s) = (s \<noteq> [])"
| "truthy (JArr xs) = (xs \<noteq> [])"
| "truthy (JObj kvs) = (kvs \<noteq> [])"

text \<open>\<open>d.get(k, default)\<close> on a dict.\<close>

definition dict_get :: "(string \<times> json) list \<Rightarrow> string \<Rightarrow> json \<Rightarrow> json" where
  "dict_get kvs k d = (case map_of kvs k of None \<Rightarrow> d | Some v \<Rightarrow> v)"

text \<open>\<open>x.get(k, default)\<close> on any object: only a dict has the method.\<close>

fun py_get :: "json \<Rightarrow> string \<Rightarrow> json \<Rightarrow> py_error + json" where
  "py_get (JObj kvs) k d = Inr (dict_get kvs k d)"
| "py_get _ k d = Inl AttributeError"

text \<open>\<open>xs[:n]\<close> on a sequence: a negative bound counts from the end.\<close>

definition slice_to :: "int \<Rightarrow> 'a list \<Rightarrow> 'a list" where
  "slice_to n xs = (if 0 \<le> n then take (nat n) xs else take (nat (int (length xs) + n)) xs)"

text \<open>
  \<open>pins[:max_items]\<close> followed by iteration: a list yields its elements, a \<open>str\<close> its
  one-character strings; a dict, a number, a bool and \<open>None\<close> cannot be sliced.
\<close>

fun py_slice :: "json \<Rightarrow> int \<Rightarrow> py_error + json list" where
  "py_slice (JArr xs) n = Inr (slice_to n xs)"
| "py_slice (JStr s) n = Inr (map (\<lambda>c. JStr [c]) (slice_to n s))"
| "py_slice _ n = Inl TypeError"

fun starts_with :: "string \<Rightarrow> string \<Rightarrow> bool" where
  "starts_with [] s = True"
| "starts_with (p # ps) [] = False"
| "starts_with (p # ps) (c # cs) = (p = c \<and> starts_with ps cs)"

fun contains_str :: "string \<Rightarrow> string \<Rightarrow> bool" where
  "contains_str p [] = (p = [])"
| "contains_str p (c # cs) = (starts_with p (c # cs) \<or> contains_str p cs)"

text \<open>
  \<open>k in x\<close> for a string \<open>k\<close>: key of a dict, element of a list, substring of a
  \<open>str\<close>; the other objects are not containers.
\<close>

fun py_in :: "string \<Rightarrow> json \<Rightarrow> py_error + bool" where
  "py_in k (JObj kvs) = Inr (map_of kvs k \<noteq> None)"
| "py_in k (JArr xs) = Inr (List.member xs (JStr k))"
| "py_in k (JStr s) = Inr (contains_str k s)"
| "py_in k _ = Inl TypeError"

text \<open>\<open>x[k]\<close> for a string \<open>k\<close>: a list and a \<open>str\<close> take integer indices only.\<close>

fun py_item :: "json \<Rightarrow> string \<Rightarrow> py_error + json" where
  "py_item (JObj kvs) k = (case map_of kvs k of None \<Rightarrow> Inl KeyError | Some v \<Rightarrow> Inr v)"
| "py_item _ k = Inl TypeError"

subsection \<open>Formatting\<close>

definition digit :: "nat \<Rightarrow> char" where
  "digit d = char_of (48 + d)"

text \<open>\<open>str(n)\<close> of a non-negative integer, as an f-string prints \<open>{i+1}\<close>.\<close>

fun str_of_nat :: "nat \<Rightarrow> string" where
  "str_of_nat n = (if n < 10 then [digit n] else str_of_nat (n div 10) @ [digit (n mod 10)])"

declare str_of_nat.simps [simp del]

definition is_lower :: "char \<Rightarrow> bool" where
  "is_lower c = (97 \<le> (of_char c :: nat) \<and> (of_char c :: nat) \<le> 122)"

definition is_upper :: "char \<Rightarrow> bool" where
  "is_upper c = (65 \<le> (of_char c :: nat) \<and> (of_char c :: nat) \<le> 90)"

definition to_upper :: "char \<Rightarrow> char" where
  "to_upper c = (if is_lower c then char_of ((of_char c :: nat) - 32) else c)"

definition to_lower :: "char \<Rightarrow> char" where
  "to_lower c = (if is_upper c then char_of ((of_char c :: nat) + 32) else c)"

text \<open>
  \<open>str.title()\<close> on ASCII text: a letter that follows a letter is lowered, a letter
  that follows anything else is raised. The flag says whether the previous character
  was a letter.
\<close>

fun title_from :: "bool \<Rightarrow> string \<Rightarrow> string" where
  "title_from prev [] = []"
| "title_from prev (c # cs) =
     (if prev then to_lower c else to_upper c) # title_from (is_lower c \<or> is_upper c) cs"

definition py_title :: "string \<Rightarrow> string" where
  "py_title s = title_from False s"

subsection \<open>The random generator\<close>

text \<open>
  The state of the module \<open>random\<close> is the sequence of raw draws it has yet to hand
  out. \<open>random.randint(a, b)\<close> uses up one draw and returns an integer between \<open>a\<close>
  and \<open>b\<close>, both included; every such integer is the result for some draw.
\<close>

type_synonym rng = "nat \<Rightarrow> nat"

definition randint :: "int \<Rightarrow> int \<Rightarrow> rng \<Rightarrow> int \<times> rng" where
  "randint a b g = (a + int (g 0) mod (b - a + 1), \<lambda>i. g (Suc i))"

section \<open>The items\<close>

text \<open>The dict that both paths build for one pin; its ten keys are the fields.\<close>

record item =
  item_id :: json
  title :: json
  description :: json
  image_url :: json
  source_url :: json
  style :: string
  creator :: json
  likes :: int
  saves :: int
  created_at :: json

subsection \<open>\<open>_generate_mock_items\<close>\<close>

definition mock_item :: "string \<Rightarrow> nat \<Rightarrow> int \<Rightarrow> int \<Rightarrow> item" where
  "mock_item keyword i l s =
     \<lparr> item_id = JStr (''mock_'' @ str_of_nat (i + 1)),
       title = JStr (''Mock '' @ py_title keyword @ '' Item '' @ str_of_nat (i + 1)),
       description = JStr (''Demo fallback '' @ keyword @ '' item.''),
       image_url = JStr (''https://picsum.photos/300/400?random='' @ str_of_nat (i + 1)),
       source_url = JStr ''https://pinterest.com'',
       style = keyword,
       creator = JStr ''Mock User'',
       likes = l,
       saves = s,
       created_at = JStr ''2025-01-01T00:00:00Z'' \<rparr>"

text \<open>The loop \<open>for i in range(count)\<close>, appending to \<open>items\<close>.\<close>

fun mock_loop :: "string \<Rightarrow> nat list \<Rightarrow> item list \<Rightarrow> rng \<Rightarrow> item list \<times> rng" where
  "mock_loop keyword [] items g = (items, g)"
| "mock_loop keyword (i # rest) items g =
     (let (l, g1) = randint 50 500 g;
          (s, g2) = randint 10 100 g1
      in mock_loop keyword rest (items @ [mock_item keyword i l s]) g2)"

text \<open>\<open>range(count)\<close> is empty when \<open>count\<close> is zero or negative.\<close>

definition py_range :: "int \<Rightarrow> nat list" where
  "py_range count = [0 ..< nat count]"

definition generate_mock_items :: "string \<Rightarrow> int \<Rightarrow> rng \<Rightarrow> item list \<times> rng" where
  "generate_mock_items keyword count g = mock_loop keyword (py_range count) [] g"

subsection \<open>Mapping one pin\<close>

text \<open>
  The \<open>if "orig" in images\<close> block: the url of the \<open>orig\<close> entry, the empty string
  when there is no such entry.
\<close>

definition orig_url :: "json \<Rightarrow> py_error + json" where
  "orig_url images =
     (case py_in ''orig'' images of
        Inl e \<Rightarrow> Inl e
      | Inr False \<Rightarrow> Inr (JStr '''')
      | Inr True \<Rightarrow>
          (case py_item images ''orig'' of
             Inl e \<Rightarrow> Inl e
           | Inr orig \<Rightarrow> py_get orig ''url'' (JStr '''')))"

text \<open>\<open>pin.get("grid_title") or pin.get("description", "")\<close>.\<close>

definition pin_title :: "(string \<times> json) list \<Rightarrow> json" where
  "pin_title kvs =
     (let t = dict_get kvs ''grid_title'' JNull
      in if truthy t then t else dict_get kvs ''description'' (JStr ''''))"

text \<open>
  One turn of the loop over \<open>enumerate(pins[:max_items])\<close>. The first statement calls
  \<open>pin.get\<close>, which only a dict has. Every lookup comes before the two calls of
  \<open>random.randint\<close>, so a turn that raises leaves the generator as it was.
\<close>

fun map_pin :: "string \<Rightarrow> nat \<Rightarrow> json \<Rightarrow> rng \<Rightarrow> (py_error + item) \<times> rng" where
  "map_pin keyword i (JObj kvs) g =
     (case orig_url (dict_get kvs ''images'' (JObj [])) of
        Inl e \<Rightarrow> (Inl e, g)
      | Inr url \<Rightarrow>
          (case py_get (dict_get kvs ''pinner'' (JObj [])) ''full_name'' (JStr '''') of
             Inl e \<Rightarrow> (Inl e, g)
           | Inr full_name \<Rightarrow>
               (let (l, g1) = randint 50 500 g;
                    (s, g2) = randint 10 100 g1
                in (Inr \<lparr> item_id = dict_get kvs ''id'' (JStr (''pin_'' @ str_of_nat (i + 1))),
                          title = pin_title kvs,
                          description = dict_get kvs ''description'' (JStr ''''),
                          image_url = url,
                          source_url = dict_get kvs ''url'' JNull,
                          style = keyword,
                          creator = full_name,
                          likes = l,
                          saves = s,
                          created_at = dict_get kvs ''created_at'' JNull \<rparr>, g2))))"
| "map_pin keyword i _ g = (Inl AttributeError, g)"

fun map_pins :: "string \<Rightarrow> (nat \<times> json) list \<Rightarrow> item list \<Rightarrow> rng \<Rightarrow> (py_error + item list) \<times> rng" where
  "map_pins keyword [] items g = (Inr items, g)"
| "map_pins keyword ((i, pin) # rest) items g =
     (case map_pin keyword i pin g of
        (Inl e, g') \<Rightarrow> (Inl e, g')
      | (Inr it, g') \<Rightarrow> map_pins keyword rest (items @ [it]) g')"

section \<open>The scraper\<close>

text \<open>
  The request that \<open>session.get\<close> sends, and what comes back: the call raises, or it
  returns a response with a status code and a body that parses as JSON or does not.
\<close>

record request =
  req_url :: string
  req_params :: "(string \<times> string) list"
  req_api_key :: string
  req_timeout :: nat

datatype upstream =
    Raises py_error
  | Responds nat "json option"

text \<open>
  Everything outside the program: the process environment (after \<open>load_dotenv()\<close> has
  run at import), the upstream service, the requests sent so far and the random
  generator.
\<close>

record world =
  environ :: "string \<Rightarrow> string option"
  service :: "request \<Rightarrow> upstream"
  requests_sent :: "request list"
  rng_state :: rng

record scraper =
  api_key :: string
  endpoint :: string

text \<open>\<open>PinterestScraper.__init__\<close>: \<open>not self.api_key\<close> holds for \<open>None\<close> and for \<open>""\<close>.\<close>

definition init :: "world \<Rightarrow> (py_error + scraper) \<times> world" where
  "init w =
     (case environ w ''SCRAPE_CREATORS_KEY'' of
        None \<Rightarrow> (Inl ValueError, w)
      | Some k \<Rightarrow>
          if k = [] then (Inl ValueError, w)
          else (Inr \<lparr> api_key = k,
                      endpoint = ''https://api.scrapecreators.com/v1/pinterest/search'' \<rparr>, w))"

text \<open>\<open>response.raise_for_status()\<close> raises for the codes 400 to 599.\<close>

definition raise_for_status :: "nat \<Rightarrow> bool" where
  "raise_for_status code = (400 \<le> code \<and> code < 600)"

text \<open>
  Lines 37 to 42: the request is sent, then \<open>session.get\<close>, \<open>raise_for_status\<close> or
  \<open>response.json\<close> raises, or \<open>data\<close> is there.
\<close>

definition fetch :: "scraper \<Rightarrow> string \<Rightarrow> world \<Rightarrow> (py_error + json) \<times> world" where
  "fetch self keyword w =
     (let req = \<lparr> req_url = endpoint self,
                  req_params = [(''query'', keyword), (''trim'', ''true'')],
                  req_api_key = api_key self,
                  req_timeout = 10 \<rparr>;
          w' = w \<lparr> requests_sent := requests_sent w @ [req] \<rparr>
      in case service w req of
           Raises e \<Rightarrow> (Inl e, w')
         | Responds code body \<Rightarrow>
             if raise_for_status code then (Inl HTTPError, w')
             else (case body of
                     None \<Rightarrow> (Inl JSONDecodeError, w')
                   | Some data \<Rightarrow> (Inr data, w')))"

text \<open>Lines 44 to 72, from \<open>data\<close> to the \<open>return\<close> inside the \<open>try\<close>.\<close>

definition normalize_data :: "string \<Rightarrow> int \<Rightarrow> json \<Rightarrow> rng \<Rightarrow> (py_error + item list) \<times> rng" where
  "normalize_data keyword max_items data g =
     (case py_get data ''success'' JNull of
        Inl e \<Rightarrow> (Inl e, g)
      | Inr ok \<Rightarrow>
          if \<not> truthy ok then
            (let (items, g') = generate_mock_items keyword max_items g in (Inr items, g'))
          else
            (case py_get data ''pins'' (JArr []) of
               Inl e \<Rightarrow> (Inl e, g)
             | Inr pins \<Rightarrow>
                 (case py_slice pins max_items of
                    Inl e \<Rightarrow> (Inl e, g)
                  | Inr ps \<Rightarrow> map_pins keyword (List.enumerate 0 ps) [] g)))"

text \<open>The body of the \<open>try\<close>.\<close>

definition try_body :: "scraper \<Rightarrow> string \<Rightarrow> int \<Rightarrow> world \<Rightarrow> (py_error + item list) \<times> world" where
  "try_body self keyword max_items w =
     (case fetch self keyword w of
        (Inl e, w') \<Rightarrow> (Inl e, w')
      | (Inr data, w') \<Rightarrow>
          (let (r, g') = normalize_data keyword max_items data (rng_state w')
           in (r, w' \<lparr> rng_state := g' \<rparr>)))"

text \<open>
  \<open>PinterestScraper.scrape_pinterest\<close>: \<open>except Exception\<close> takes every exception of
  the body and returns the mock items, made with the generator as the body left it.
  The result is the sum type of the other operations, so that a raise would show.
\<close>

definition scrape_method :: "scraper \<Rightarrow> string \<Rightarrow> int \<Rightarrow> world \<Rightarrow> (py_error + item list) \<times> world" where
  "scrape_method self keyword max_items w =
     (case try_body self keyword max_items w of
        (Inr items, w') \<Rightarrow> (Inr items, w')
      | (Inl e, w') \<Rightarrow>
          (let (items, g') = generate_mock_items keyword max_items (rng_state w')
           in (Inr items, w' \<lparr> rng_state := g' \<rparr>)))"

text \<open>The module's function \<open>scrape_pinterest\<close>: build a scraper, then call it.\<close>

definition scrape_pinterest :: "string \<Rightarrow> int \<Rightarrow> world \<Rightarrow> (py_error + item list) \<times> world" where
  "scrape_pinterest keyword max_items w =
     (case init w of
        (Inl e, w') \<Rightarrow> (Inl e, w')
      | (Inr self, w') \<Rightarrow> scrape_method self keyword max_items w')"


text \<open>
  The list a call returned, empty when it raised.
\<close>

definition items_of :: "(py_error + item list) \<times> world \<Rightarrow> item list" where
  "items_of r = (case fst r of Inl e \<Rightarrow> [] | Inr items \<Rightarrow> items)"

subsection \<open>Reading a number back\<close>

text \<open>
  The value of a decimal string; \<open>str_of_nat\<close> is shown to be one-to-one with it.
\<close>

definition digit_val :: "char \<Rightarrow> nat" where
  "digit_val c = of_char c - 48"

definition nat_of_str :: "string \<Rightarrow> nat" where
  "nat_of_str s = foldl (\<lambda>a c. 10 * a + digit_val c) 0 s"

subsection \<open>Sample inputs\<close>

text \<open>
  A generator, a scraper as \<open>init\<close> builds it, five pins that between them have and
  lack each optional key, and worlds in which the service answers with these pins,
  times out, reports no success, leaves the flag out, has no pins, or has one pin
  without keys; and a world without the key in the environment.
\<close>

definition sample_rng :: rng where
  "sample_rng i = 7 * i + 3"

definition sample_world :: "string option \<Rightarrow> upstream \<Rightarrow> world" where
  "sample_world key up =
     \<lparr> environ = (\<lambda>k. if k = ''SCRAPE_CREATORS_KEY'' then key else None),
       service = (\<lambda>r. up),
       requests_sent = [],
       rng_state = sample_rng \<rparr>"

definition sample_scraper :: scraper where
  "sample_scraper =
     \<lparr> api_key = ''secret'', endpoint = ''https://api.scrapecreators.com/v1/pinterest/search'' \<rparr>"

definition sample_pins :: "json list" where
  "sample_pins =
     [JObj [(''grid_title'', JStr ''''), (''description'', JStr ''d'')],
      JObj [],
      JObj [(''id'', JStr ''p3''), (''grid_title'', JStr ''t''),
            (''images'', JObj [(''orig'', JObj [(''url'', JStr ''u'')])])],
      JObj [(''description'', JStr ''e''), (''images'', JObj [(''orig'', JObj [])])],
      JObj [(''grid_title'', JNull), (''images'', JObj [(''236x'', JObj [(''url'', JStr ''v'')])])]]"

definition payload :: "bool \<Rightarrow> json list \<Rightarrow> json" where
  "payload ok pins = JObj [(''success'', JBool ok), (''pins'', JArr pins)]"

definition up_world :: world where
  "up_world = sample_world (Some ''secret'') (Responds 200 (Some (payload True sample_pins)))"

definition down_world :: world where
  "down_world = sample_world (Some ''secret'') (Raises Timeout)"

definition unsuccessful_world :: world where
  "unsuccessful_world = sample_world (Some ''secret'') (Responds 200 (Some (payload False sample_pins)))"

definition no_key_world :: world where
  "no_key_world = sample_world None (Responds 200 (Some (payload True sample_pins)))"

definition no_flag_world :: world where
  "no_flag_world = sample_world (Some ''secret'') (Responds 200 (Some (JObj [(''pins'', JArr sample_pins)])))"

definition empty_world :: world where
  "empty_world = sample_world (Some ''secret'') (Responds 200 (Some (payload True [])))"

definition bare_pin_world :: world where
  "bare_pin_world = sample_world (Some ''secret'') (Responds 200 (Some (payload True [JObj []])))"

section \<open>Basic facts\<close>

subsection \<open>Decimal strings and random numbers\<close>

lemma digit_val_digit: "d < 10 \<Longrightarrow> digit_val (digit d) = d"
  by (simp add: digit_val_def digit_def)

lemma nat_of_str_of_nat: "nat_of_str (str_of_nat n) = n"
proof (induction n rule: str_of_nat.induct)
  case (1 n)
  show ?case
  proof (cases "n < 10")
    case True
    then show ?thesis
      by (simp add: str_of_nat.simps [of n] nat_of_str_def digit_val_digit)
  next
    case False
    with 1 have "nat_of_str (str_of_nat (n div 10)) = n div 10" by simp
    with False show ?thesis
      by (simp add: str_of_nat.simps [of n] nat_of_str_def digit_val_digit)
  qed
qed

lemma str_of_nat_inj: "str_of_nat m = str_of_nat n \<Longrightarrow> m = n"
  by (metis nat_of_str_of_nat)

lemma inj_on_str_of_nat_suffix: "inj_on (\<lambda>i. JStr (p @ str_of_nat (i + 1))) A"
  by (rule inj_onI) (auto dest: str_of_nat_inj)

lemma randint_range:
  assumes "a \<le> b"
  shows "a \<le> fst (randint a b g) \<and> fst (randint a b g) \<le> b"
proof -
  from assms have "0 < b - a + 1" by simp
  then have "0 \<le> int (g 0) mod (b - a + 1)" and "int (g 0) mod (b - a + 1) < b - a + 1"
    by (rule pos_mod_sign, rule pos_mod_bound)
  then show ?thesis by (simp add: randint_def)
qed

subsection \<open>The mock items\<close>

lemma mock_loop_map:
  assumes "\<And>i l s. f (mock_item kw i l s) = h i"
  shows "map f (fst (mock_loop kw js items g)) = map f items @ map h js"
  using assms
  by (induction js arbitrary: items g) (simp_all add: split_def Let_def)

lemma generate_mock_items_map:
  assumes "\<And>i l s. f (mock_item kw i l s) = h i"
  shows "map f (fst (generate_mock_items kw count g)) = map h [0 ..< nat count]"
  using mock_loop_map [of f kw h "py_range count" "[]" g, OF assms]
  by (simp add: generate_mock_items_def py_range_def)

lemma length_generate_mock_items: "length (fst (generate_mock_items kw count g)) = nat count"
  using generate_mock_items_map [of style kw "\<lambda>i. kw" count g, THEN arg_cong, of length]
  by (simp add: mock_item_def)

lemma mock_loop_pred:
  assumes "\<And>i l s. 50 \<le> l \<Longrightarrow> l \<le> 500 \<Longrightarrow> 10 \<le> s \<Longrightarrow> s \<le> 100 \<Longrightarrow> P (mock_item kw i l s)"
    and "\<forall>it \<in> set items. P it"
  shows "\<forall>it \<in> set (fst (mock_loop kw js items g)). P it"
  using assms(2)
proof (induction js arbitrary: items g)
  case Nil
  then show ?case by simp
next
  case (Cons i js)
  have l: "50 \<le> fst (randint 50 500 g) \<and> fst (randint 50 500 g) \<le> 500"
    by (rule randint_range) simp
  have s: "10 \<le> fst (randint 10 100 (snd (randint 50 500 g))) \<and> fst (randint 10 100 (snd (randint 50 500 g))) \<le> 100"
    by (rule randint_range) simp
  have "P (mock_item kw i (fst (randint 50 500 g)) (fst (randint 10 100 (snd (randint 50 500 g)))))"
    using assms(1) l s by blast
  with Cons.prems have "\<forall>it \<in> set (items @ [mock_item kw i (fst (randint 50 500 g)) (fst (randint 10 100 (snd (randint 50 500 g))))]). P it"
    by simp
  from Cons.IH [OF this] show ?case
    by (simp add: split_def Let_def)
qed

lemma generate_mock_items_pred:
  assumes "\<And>i l s. 50 \<le> l \<Longrightarrow> l \<le> 500 \<Longrightarrow> 10 \<le> s \<Longrightarrow> s \<le> 100 \<Longrightarrow> P (mock_item kw i l s)"
  shows "\<forall>it \<in> set (fst (generate_mock_items kw n g)). P it"
  unfolding generate_mock_items_def
  by (rule mock_loop_pred [where P = P]) (simp_all add: assms)

subsection \<open>The loop over the pins\<close>

lemma map_pin_SomeD:
  assumes "map_pin kw i pin g = (Inr it, g')"
  shows "style it = kw \<and> 50 \<le> likes it \<and> likes it \<le> 500 \<and> 10 \<le> saves it \<and> saves it \<le> 100"
proof (cases pin)
  case (JObj kvs)
  have l: "50 \<le> fst (randint 50 500 g) \<and> fst (randint 50 500 g) \<le> 500"
    by (rule randint_range) simp
  have s: "10 \<le> fst (randint 10 100 (snd (randint 50 500 g))) \<and> fst (randint 10 100 (snd (randint 50 500 g))) \<le> 100"
    by (rule randint_range) simp
  from assms JObj l s show ?thesis
    by (auto simp: split_def Let_def split: sum.splits)
qed (use assms in simp_all)

lemma map_pins_pred:
  assumes pin: "\<And>i pin g it g'. map_pin kw i pin g = (Inr it, g') \<Longrightarrow> P it"
    and "map_pins kw ps items g = (Inr res, g')"
    and "\<forall>it \<in> set items. P it"
  shows "\<forall>it \<in> set res. P it"
  using assms(2,3)
proof (induction ps arbitrary: items g)
  case Nil
  then show ?case by simp
next
  case (Cons p ps)
  obtain i x where p: "p = (i, x)" by (cases p)
  from Cons.prems(1) p obtain it g1 where
    m: "map_pin kw i x g = (Inr it, g1)" and r: "map_pins kw ps (items @ [it]) g1 = (Inr res, g')"
    by (auto split: prod.splits sum.splits)
  from pin [OF m] Cons.prems(2) have "\<forall>a \<in> set (items @ [it]). P a" by simp
  from Cons.IH [OF r this] show ?case .
qed


subsection \<open>The method, step by step\<close>

lemma fetch_rng_state: "rng_state (snd (fetch self kw w)) = rng_state w"
  by (simp add: fetch_def Let_def split: upstream.split option.split)

lemma scrape_method_returns: "\<exists>items. fst (scrape_method self kw n w) = Inr items"
  by (cases "fst (try_body self kw n w)") (simp_all add: scrape_method_def split_def Let_def)

lemma try_body_fetch_Inl:
  "fst (fetch self kw w) = Inl e \<Longrightarrow> try_body self kw n w = (Inl e, snd (fetch self kw w))"
  by (cases "fetch self kw w") (simp add: try_body_def)

lemma try_body_fetch_Inr:
  "fst (fetch self kw w) = Inr data \<Longrightarrow>
   fst (try_body self kw n w) = fst (normalize_data kw n data (rng_state w))"
  using fetch_rng_state [of self kw w]
  by (cases "fetch self kw w") (simp add: try_body_def split_def Let_def)

lemma scrape_method_Inl:
  "fst (try_body self kw n w) = Inl e \<Longrightarrow>
   fst (scrape_method self kw n w)
     = Inr (fst (generate_mock_items kw n (rng_state (snd (try_body self kw n w)))))"
  by (cases "try_body self kw n w") (simp add: scrape_method_def split_def Let_def)

lemma scrape_method_Inr:
  "fst (try_body self kw n w) = Inr items \<Longrightarrow> fst (scrape_method self kw n w) = Inr items"
  by (cases "try_body self kw n w") (simp add: scrape_method_def)

lemma scrape_method_fetch_Inl:
  assumes "fst (fetch self kw w) = Inl e"
  shows "fst (scrape_method self kw n w) = Inr (fst (generate_mock_items kw n (rng_state w)))"
  using scrape_method_Inl [of self kw n w e] try_body_fetch_Inl [OF assms, of n]
    fetch_rng_state [of self kw w]
  by simp

lemma normalize_data_falsy:
  "\<not> truthy (dict_get kvs ''success'' JNull) \<Longrightarrow>
   fst (normalize_data kw n (JObj kvs) g) = Inr (fst (generate_mock_items kw n g))"
  by (simp add: normalize_data_def split_def Let_def)

lemma scrape_method_falsy:
  assumes "fst (fetch self kw w) = Inr (JObj kvs)"
    and "\<not> truthy (dict_get kvs ''success'' JNull)"
  shows "fst (scrape_method self kw n w) = Inr (fst (generate_mock_items kw n (rng_state w)))"
  using try_body_fetch_Inr [OF assms(1), of n] normalize_data_falsy [OF assms(2), of kw n "rng_state w"]
  by (simp add: scrape_method_Inr)

lemma normalize_data_pins:
  assumes "truthy (dict_get kvs ''success'' JNull)"
    and "dict_get kvs ''pins'' (JArr []) = JArr pins"
  shows "normalize_data kw n (JObj kvs) g = map_pins kw (List.enumerate 0 (slice_to n pins)) [] g"
  using assms by (simp add: normalize_data_def)

lemma scrape_pinterest_Inl:
  "fst (scrape_pinterest kw n w) = Inl e \<Longrightarrow> e = ValueError \<and> fst (init w) = Inl ValueError"
proof -
  assume a: "fst (scrape_pinterest kw n w) = Inl e"
  show ?thesis
  proof (cases "fst (init w)")
    case (Inl e')
    then have "e' = ValueError"
      by (auto simp: init_def split: option.splits if_splits)
    with a Inl show ?thesis
      by (cases "init w") (simp add: scrape_pinterest_def)
  next
    case (Inr self)
    with a have "fst (scrape_method self kw n (snd (init w))) = Inl e"
      by (cases "init w") (simp add: scrape_pinterest_def)
    with scrape_method_returns [of self kw n "snd (init w)"] show ?thesis by simp
  qed
qed

lemma normalize_pred:
  assumes mock: "\<And>i l s. 50 \<le> l \<Longrightarrow> l \<le> 500 \<Longrightarrow> 10 \<le> s \<Longrightarrow> s \<le> 100 \<Longrightarrow> P (mock_item kw i l s)"
    and pin: "\<And>i pin g it g'. map_pin kw i pin g = (Inr it, g') \<Longrightarrow> P it"
    and n: "normalize_data kw n data g = (Inr res, g')"
  shows "\<forall>it \<in> set res. P it"
proof (cases "\<exists>kvs. data = JObj kvs \<and> truthy (dict_get kvs ''success'' JNull)")
  case False
  with n have "res = fst (generate_mock_items kw n g)"
    by (cases data) (auto simp: normalize_data_def split_def Let_def)
  then show ?thesis
    using generate_mock_items_pred [of P kw n g, OF mock] by simp
next
  case True
  then obtain kvs where d: "data = JObj kvs" and t: "truthy (dict_get kvs ''success'' JNull)"
    by blast
  from n d t obtain ps where "map_pins kw (List.enumerate 0 ps) [] g = (Inr res, g')"
    by (auto simp: normalize_data_def split: sum.splits)
  from map_pins_pred [of kw P, OF pin this] show ?thesis by simp
qed

lemma scrape_method_pred:
  assumes mock: "\<And>i l s. 50 \<le> l \<Longrightarrow> l \<le> 500 \<Longrightarrow> 10 \<le> s \<Longrightarrow> s \<le> 100 \<Longrightarrow> P (mock_item kw i l s)"
    and pin: "\<And>i pin g it g'. map_pin kw i pin g = (Inr it, g') \<Longrightarrow> P it"
    and r: "fst (scrape_method self kw n w) = Inr res"
  shows "\<forall>it \<in> set res. P it"
proof (cases "fst (try_body self kw n w)")
  case (Inl e)
  with r have "res = fst (generate_mock_items kw n (rng_state (snd (try_body self kw n w))))"
    by (simp add: scrape_method_def split_def Let_def)
  then show ?thesis
    using generate_mock_items_pred [of P kw n, OF mock] by simp
next
  case (Inr items)
  with r have eq: "res = items"
    by (simp add: scrape_method_def split_def)
  obtain fr w' where f: "fetch self kw w = (fr, w')" by (cases "fetch self kw w")
  from Inr f obtain data where fr: "fr = Inr data"
    by (cases fr) (simp_all add: try_body_def)
  from Inr f fr have "fst (normalize_data kw n data (rng_state w')) = Inr items"
    by (simp add: try_body_def split_def Let_def)
  then have "normalize_data kw n data (rng_state w') = (Inr items, snd (normalize_data kw n data (rng_state w')))"
    by (simp add: prod_eq_iff)
  from normalize_pred [of P kw, OF mock pin this] eq show ?thesis by simp
qed

lemma scrape_pinterest_pred:
  assumes mock: "\<And>i l s. 50 \<le> l \<Longrightarrow> l \<le> 500 \<Longrightarrow> 10 \<le> s \<Longrightarrow> s \<le> 100 \<Longrightarrow> P (mock_item kw i l s)"
    and pin: "\<And>i pin g it g'. map_pin kw i pin g = (Inr it, g') \<Longrightarrow> P it"
    and r: "fst (scrape_pinterest kw n w) = Inr res"
  shows "\<forall>it \<in> set res. P it"
proof -
  from r obtain self w' where "fst (scrape_method self kw n w') = Inr res"
    by (auto simp: scrape_pinterest_def split: prod.splits sum.splits)
  from scrape_method_pred [of P kw, OF mock pin this] show ?thesis .
qed



section \<open>The claims\<close>

subsection \<open>C1: every fault ends in the mock items\<close>

text \<open>
  Claim C1. Whatever the keyword and the requested count: when fetching raises (the
  request fails, the status is an error, the body is not JSON), or when the payload's
  \<open>success\<close> is false, the method returns the list that \<open>_generate_mock_items\<close> makes for
  the keyword and the count, which has as many items as were asked for. The method
  always returns a list, and the module's function raises only the \<open>ValueError\<close> of a
  constructor that found no key.
\<close>

theorem faults_fall_back:
  "(\<forall>e. fst (fetch self keyword w) = Inl e \<longrightarrow>
      fst (scrape_method self keyword max_items w)
        = Inr (fst (generate_mock_items keyword max_items (rng_state w))))
   \<and> (\<forall>kvs. fst (fetch self keyword w) = Inr (JObj kvs) \<and> map_of kvs ''success'' = Some (JBool False) \<longrightarrow>
      fst (scrape_method self keyword max_items w)
        = Inr (fst (generate_mock_items keyword max_items (rng_state w))))
   \<and> length (fst (generate_mock_items keyword max_items (rng_state w))) = nat max_items
   \<and> (\<exists>items. fst (scrape_method self keyword max_items w) = Inr items)
   \<and> (\<forall>e. fst (scrape_pinterest keyword max_items w) = Inl e \<longrightarrow>
        e = ValueError \<and> fst (init w) = Inl ValueError)"
proof -
  have a: "\<forall>kvs. fst (fetch self keyword w) = Inr (JObj kvs) \<and> map_of kvs ''success'' = Some (JBool False) \<longrightarrow>
      fst (scrape_method self keyword max_items w)
        = Inr (fst (generate_mock_items keyword max_items (rng_state w)))"
  proof (intro allI impI, elim conjE)
    fix kvs
    assume f: "fst (fetch self keyword w) = Inr (JObj kvs)"
      and s: "map_of kvs ''success'' = Some (JBool False)"
    from s have "\<not> truthy (dict_get kvs ''success'' JNull)"
      by (simp add: dict_get_def)
    from scrape_method_falsy [OF f this]
    show "fst (scrape_method self keyword max_items w)
        = Inr (fst (generate_mock_items keyword max_items (rng_state w)))" .
  qed
  show ?thesis
    using a scrape_method_fetch_Inl [of self keyword w _ max_items]
      scrape_method_returns [of self keyword max_items w]
      scrape_pinterest_Inl [of keyword max_items w]
      length_generate_mock_items [of keyword max_items "rng_state w"]
    by blast
qed

theorem faults_fall_back_witness:
  "fst (scrape_method sample_scraper ''y2k'' 2 down_world)
     = Inr (fst (generate_mock_items ''y2k'' 2 sample_rng))
   \<and> fst (scrape_method sample_scraper ''y2k'' 2 unsuccessful_world)
     = Inr (fst (generate_mock_items ''y2k'' 2 sample_rng))
   \<and> length (fst (generate_mock_items ''y2k'' 2 sample_rng)) = 2
   \<and> fst (scrape_pinterest ''y2k'' 2 no_key_world) = Inl ValueError"
proof -
  have d: "fst (fetch sample_scraper ''y2k'' down_world) = Inl Timeout"
    by code_simp
  have u: "fst (fetch sample_scraper ''y2k'' unsuccessful_world) = Inr (payload False sample_pins)"
    by code_simp
  have s: "map_of [(''success'', JBool False), (''pins'', JArr sample_pins)] ''success'' = Some (JBool False)"
    by simp
  have k: "fst (scrape_pinterest ''y2k'' 2 no_key_world) = Inl ValueError"
    by code_simp
  have g: "rng_state down_world = sample_rng" "rng_state unsuccessful_world = sample_rng"
    by (simp_all add: down_world_def unsuccessful_world_def sample_world_def)
  from faults_fall_back [of sample_scraper "''y2k''" down_world 2] d g
  have 1: "fst (scrape_method sample_scraper ''y2k'' 2 down_world)
     = Inr (fst (generate_mock_items ''y2k'' 2 sample_rng))
     \<and> length (fst (generate_mock_items ''y2k'' 2 sample_rng)) = 2"
    by simp
  from faults_fall_back [of sample_scraper "''y2k''" unsuccessful_world 2] u s g
  have 2: "fst (scrape_method sample_scraper ''y2k'' 2 unsuccessful_world)
     = Inr (fst (generate_mock_items ''y2k'' 2 sample_rng))"
    by (simp add: payload_def)
  from faults_fall_back [of sample_scraper "''y2k''" no_key_world 2] k
  have 3: "fst (scrape_pinterest ''y2k'' 2 no_key_world) = Inl ValueError"
    by simp
  from 1 2 3 show ?thesis by simp
qed

subsection \<open>C2: length and order of the result\<close>




subsection \<open>C3: the style is the keyword\<close>

text \<open>
  Claim C3. On both paths, every item of the returned list has the keyword of the
  call as its \<open>style\<close>.
\<close>

theorem style_is_keyword:
  "fst (scrape_pinterest keyword max_items w) = Inr items \<Longrightarrow> \<forall>it \<in> set items. style it = keyword"
proof (rule scrape_pinterest_pred [where P = "\<lambda>it. style it = keyword"])
  show "style (mock_item keyword i l s) = keyword" for i l s
    by (simp add: mock_item_def)
  show "style it = keyword" if "map_pin keyword i pin g = (Inr it, g')" for i pin g it g'
    using map_pin_SomeD [OF that] by simp
qed

theorem style_is_keyword_witness:
  "map style (items_of (scrape_pinterest ''y2k'' 2 up_world)) = [''y2k'', ''y2k'']
   \<and> map style (items_of (scrape_pinterest ''y2k'' 2 down_world)) = [''y2k'', ''y2k'']"
proof -
  have "map style items = [''y2k'', ''y2k'']"
    if r: "fst (scrape_pinterest ''y2k'' 2 w) = Inr items" and l: "length items = 2" for w items
  proof -
    from style_is_keyword [OF r] have "\<forall>it \<in> set items. style it = ''y2k''" .
    with l have "map style items = replicate 2 ''y2k''"
      by (auto intro!: replicate_eqI)
    then show ?thesis by (simp add: numeral_2_eq_2)
  qed
  moreover have "fst (scrape_pinterest ''y2k'' 2 up_world) = Inr (items_of (scrape_pinterest ''y2k'' 2 up_world))"
    "length (items_of (scrape_pinterest ''y2k'' 2 up_world)) = 2"
    "fst (scrape_pinterest ''y2k'' 2 down_world) = Inr (items_of (scrape_pinterest ''y2k'' 2 down_world))"
    "length (items_of (scrape_pinterest ''y2k'' 2 down_world)) = 2"
    by code_simp+
  ultimately show ?thesis by blast
qed

subsection \<open>C4: the mock items\<close>

text \<open>
  Claim C4. For every keyword and count, \<open>_generate_mock_items\<close> returns \<open>count\<close> items
  (none for a count below one). Their ids are \<open>mock_1\<close>, \<open>mock_2\<close>, ... in this order
  and differ from one another; their image urls end in the same numbers and differ
  from one another; source link, creator and timestamp are the same constants in
  every item.
\<close>

theorem fallback_generator_items:
  "length (fst (generate_mock_items keyword count g)) = nat count
   \<and> map item_id (fst (generate_mock_items keyword count g))
       = map (\<lambda>i. JStr (''mock_'' @ str_of_nat (i + 1))) [0 ..< nat count]
   \<and> distinct (map item_id (fst (generate_mock_items keyword count g)))
   \<and> map image_url (fst (generate_mock_items keyword count g))
       = map (\<lambda>i. JStr (''https://picsum.photos/300/400?random='' @ str_of_nat (i + 1))) [0 ..< nat count]
   \<and> distinct (map image_url (fst (generate_mock_items keyword count g)))
   \<and> map source_url (fst (generate_mock_items keyword count g))
       = replicate (nat count) (JStr ''https://pinterest.com'')
   \<and> map creator (fst (generate_mock_items keyword count g))
       = replicate (nat count) (JStr ''Mock User'')
   \<and> map created_at (fst (generate_mock_items keyword count g))
       = replicate (nat count) (JStr ''2025-01-01T00:00:00Z'')"
proof -
  let ?items = "fst (generate_mock_items keyword count g)"
  have ids: "map item_id ?items = map (\<lambda>i. JStr (''mock_'' @ str_of_nat (i + 1))) [0 ..< nat count]"
    by (rule generate_mock_items_map) (simp add: mock_item_def)
  have urls: "map image_url ?items
      = map (\<lambda>i. JStr (''https://picsum.photos/300/400?random='' @ str_of_nat (i + 1))) [0 ..< nat count]"
    by (rule generate_mock_items_map) (simp add: mock_item_def)
  have src: "map source_url ?items = map (\<lambda>i. JStr ''https://pinterest.com'') [0 ..< nat count]"
    by (rule generate_mock_items_map) (simp add: mock_item_def)
  have cre: "map creator ?items = map (\<lambda>i. JStr ''Mock User'') [0 ..< nat count]"
    by (rule generate_mock_items_map) (simp add: mock_item_def)
  have ts: "map created_at ?items = map (\<lambda>i. JStr ''2025-01-01T00:00:00Z'') [0 ..< nat count]"
    by (rule generate_mock_items_map) (simp add: mock_item_def)
  have d1: "distinct (map item_id ?items)"
    unfolding ids by (simp only: distinct_map distinct_upt inj_on_str_of_nat_suffix simp_thms)
  have d2: "distinct (map image_url ?items)"
    unfolding urls by (simp only: distinct_map distinct_upt inj_on_str_of_nat_suffix simp_thms)
  show ?thesis
    using ids urls d1 d2 src cre ts
    by (simp only: length_generate_mock_items map_replicate_const length_upt minus_nat.diff_0 simp_thms)
qed

subsection \<open>C5: likes and saves\<close>

text \<open>
  Claim C5. On both paths, every item of the returned list has \<open>likes\<close> between 50
  and 500 and \<open>saves\<close> between 10 and 100, bounds included.
\<close>

theorem likes_saves_ranges:
  "fst (scrape_pinterest keyword max_items w) = Inr items \<Longrightarrow>
   \<forall>it \<in> set items. 50 \<le> likes it \<and> likes it \<le> 500 \<and> 10 \<le> saves it \<and> saves it \<le> 100"
proof (rule scrape_pinterest_pred
        [where P = "\<lambda>it. 50 \<le> likes it \<and> likes it \<le> 500 \<and> 10 \<le> saves it \<and> saves it \<le> 100"])
  show "50 \<le> likes (mock_item keyword i l s) \<and> likes (mock_item keyword i l s) \<le> 500
      \<and> 10 \<le> saves (mock_item keyword i l s) \<and> saves (mock_item keyword i l s) \<le> 100"
    if "50 \<le> l" "l \<le> 500" "10 \<le> s" "s \<le> 100" for i l s
    using that by (simp add: mock_item_def)
  show "50 \<le> likes it \<and> likes it \<le> 500 \<and> 10 \<le> saves it \<and> saves it \<le> 100"
    if "map_pin keyword i pin g = (Inr it, g')" for i pin g it g'
    using map_pin_SomeD [OF that] by simp
qed

theorem likes_saves_ranges_witness:
  "list_all (\<lambda>it. 50 \<le> likes it \<and> likes it \<le> 500 \<and> 10 \<le> saves it \<and> saves it \<le> 100)
     (items_of (scrape_pinterest ''y2k'' 2 up_world))
   \<and> length (items_of (scrape_pinterest ''y2k'' 2 up_world)) = 2
   \<and> list_all (\<lambda>it. 50 \<le> likes it \<and> likes it \<le> 500 \<and> 10 \<le> saves it \<and> saves it \<le> 100)
     (items_of (scrape_pinterest ''y2k'' 2 down_world))
   \<and> length (items_of (scrape_pinterest ''y2k'' 2 down_world)) = 2"
proof -
  have u: "fst (scrape_pinterest ''y2k'' 2 up_world) = Inr (items_of (scrape_pinterest ''y2k'' 2 up_world))"
    and d: "fst (scrape_pinterest ''y2k'' 2 down_world) = Inr (items_of (scrape_pinterest ''y2k'' 2 down_world))"
    and l: "length (items_of (scrape_pinterest ''y2k'' 2 up_world)) = 2"
      "length (items_of (scrape_pinterest ''y2k'' 2 down_world)) = 2"
    by code_simp+
  from likes_saves_ranges [OF u] likes_saves_ranges [OF d] l show ?thesis
    by (simp add: list_all_iff)
qed

subsection \<open>C6: title and image url of a mapped pin\<close>




subsection \<open>C7: construction\<close>

text \<open>
  Claim C7. When the environment has no \<open>SCRAPE_CREATORS_KEY\<close>, or an empty one, the
  constructor raises \<open>ValueError\<close>, so does the module's function, and neither sends a
  request. When the key is there and not empty, the constructor returns a scraper
  that holds it, and sends no request either.
\<close>

theorem init_requires_key:
  "(environ w ''SCRAPE_CREATORS_KEY'' = None \<or> environ w ''SCRAPE_CREATORS_KEY'' = Some [] \<longrightarrow>
      fst (init w) = Inl ValueError \<and> requests_sent (snd (init w)) = requests_sent w
      \<and> fst (scrape_pinterest keyword max_items w) = Inl ValueError
      \<and> requests_sent (snd (scrape_pinterest keyword max_items w)) = requests_sent w)
   \<and> (\<forall>k. environ w ''SCRAPE_CREATORS_KEY'' = Some k \<and> k \<noteq> [] \<longrightarrow>
      fst (init w) = Inr \<lparr> api_key = k, endpoint = ''https://api.scrapecreators.com/v1/pinterest/search'' \<rparr>
      \<and> requests_sent (snd (init w)) = requests_sent w)"
  by (auto simp: init_def scrape_pinterest_def)

theorem init_requires_key_witness:
  "fst (init no_key_world) = Inl ValueError
   \<and> requests_sent (snd (scrape_pinterest ''y2k'' 2 no_key_world)) = []
   \<and> fst (init up_world) = Inr sample_scraper"
proof -
  have n: "environ no_key_world ''SCRAPE_CREATORS_KEY'' = None"
    and r: "requests_sent no_key_world = []"
    and k: "environ up_world ''SCRAPE_CREATORS_KEY'' = Some ''secret''"
    by (simp_all add: no_key_world_def up_world_def sample_world_def)
  from init_requires_key [of no_key_world "''y2k''" 2] n r
  have 1: "fst (init no_key_world) = Inl ValueError
      \<and> requests_sent (snd (scrape_pinterest ''y2k'' 2 no_key_world)) = []"
    by simp
  from init_requires_key [of up_world "''y2k''" 2] k
  have 2: "fst (init up_world) = Inr sample_scraper"
    by (simp add: sample_scraper_def)
  from 1 2 show ?thesis by simp
qed

subsection \<open>C8: a payload without pins\<close>

text \<open>
  Claim C8, as the code behaves. When the fetch succeeds, \<open>success\<close> is true and the
  list of pins is empty, the method returns the empty list, whatever the count; no
  mock item is made.
\<close>

theorem empty_pins_give_empty_list:
  assumes "fst (fetch self keyword w) = Inr (JObj kvs)"
    and "truthy (dict_get kvs ''success'' JNull)"
    and "dict_get kvs ''pins'' (JArr []) = JArr []"
  shows "fst (scrape_method self keyword max_items w) = Inr []"
proof -
  have "fst (normalize_data keyword max_items (JObj kvs) (rng_state w)) = Inr []"
    using normalize_data_pins [OF assms(2,3)] by (simp add: slice_to_def)
  with try_body_fetch_Inr [OF assms(1), of max_items] show ?thesis
    by (simp add: scrape_method_Inr)
qed

theorem empty_pins_give_empty_list_witness:
  "fst (scrape_method sample_scraper ''y2k'' 3 empty_world) = Inr []"
proof -
  have f: "fst (fetch sample_scraper ''y2k'' empty_world)
      = Inr (JObj [(''success'', JBool True), (''pins'', JArr [])])"
    by code_simp
  have t: "truthy (dict_get [(''success'', JBool True), (''pins'', JArr [])] ''success'' JNull)"
    and p: "dict_get [(''success'', JBool True), (''pins'', JArr [])] ''pins'' (JArr []) = JArr []"
    by (simp_all add: dict_get_def)
  from empty_pins_give_empty_list [OF f t p] show ?thesis .
qed

text \<open>
  Claim C8 as it is written says that this case returns what a failed fetch returns.
  For a count of three, the empty payload gives no item and the failed fetch three.
\<close>

theorem empty_pins_counterexample:
  "fst (scrape_pinterest ''y2k'' 3 empty_world) = Inr []
   \<and> length (items_of (scrape_pinterest ''y2k'' 3 down_world)) = 3
   \<and> items_of (scrape_pinterest ''y2k'' 3 empty_world) \<noteq> items_of (scrape_pinterest ''y2k'' 3 down_world)"
  by code_simp

subsection \<open>C9: source url and creation time of a mapped pin\<close>

text \<open>
  Claim C9 says that \<open>source_url\<close> and \<open>created_at\<close> are strings on the success path
  even when the pin has no \<open>url\<close> and no \<open>created_at\<close>. The code reads both with
  \<open>pin.get\<close> without a default: for a pin without keys both fields are \<open>None\<close>.
\<close>

theorem bare_pin_null_fields:
  "map (\<lambda>it. (source_url it, created_at it)) (items_of (scrape_pinterest ''y2k'' 1 bare_pin_world))
     = [(JNull, JNull)]"
  by code_simp

subsection \<open>C10: a payload without the success flag\<close>

text \<open>
  Claim C10. A payload that is a dict without the key \<open>success\<close> is handled like one
  whose \<open>success\<close> is false: the method returns the mock items for the keyword and the
  count.
\<close>

theorem missing_success_falls_back:
  assumes "fst (fetch self keyword w) = Inr (JObj kvs)"
    and "map_of kvs ''success'' = None"
  shows "fst (scrape_method self keyword max_items w)
           = Inr (fst (generate_mock_items keyword max_items (rng_state w)))"
proof -
  from assms(2) have "\<not> truthy (dict_get kvs ''success'' JNull)"
    by (simp add: dict_get_def)
  from scrape_method_falsy [OF assms(1) this] show ?thesis .
qed

theorem missing_success_falls_back_witness:
  "fst (scrape_method sample_scraper ''y2k'' 2 no_flag_world)
     = Inr (fst (generate_mock_items ''y2k'' 2 sample_rng))"
proof -
  have f: "fst (fetch sample_scraper ''y2k'' no_flag_world) = Inr (JObj [(''pins'', JArr sample_pins)])"
    by code_simp
  have s: "map_of [(''pins'', JArr sample_pins)] ''success'' = None"
    by simp
  have g: "rng_state no_flag_world = sample_rng"
    by (simp add: no_flag_world_def sample_world_def)
  from missing_success_falls_back [OF f s, of 2] g show ?thesis by simp
qed

end
